theory Spec2Isabelle
  imports Complex_Main "HOL-Library.AList"
begin

section \<open>Data model\<close>

text \<open>
  Go's \<open>float64\<close> prices and thresholds are modelled by \<open>real\<close>: finite values with
  exact arithmetic and the usual order. A \<open>time.Time\<close> is a point on the integer line
  (nanoseconds), a \<open>time.Duration\<close> a number of nanoseconds. Every reading of the
  clock (\<open>time.Now()\<close>) is an explicit argument.
\<close>

type_synonym time = int
type_synonym duration = int

text \<open>\<open>config.ConditionConfig\<close>\<close>

record ConditionConfig =
  Type :: string
  Value :: real
  Period :: string
  Message :: string

text \<open>\<open>config.NtfyConfig\<close>\<close>

record NtfyConfig =
  Server :: string
  Topic :: string
  Username :: string
  Password :: string
  Token :: string
  Priority :: int

text \<open>\<open>config.AlertConfig\<close>\<close>

record AlertConfig =
  Ticker :: string
  Name :: string
  Conditions :: "ConditionConfig list"

text \<open>\<open>config.Config\<close>\<close>

record Config =
  Ntfy :: NtfyConfig
  CheckInterval :: string
  Alerts :: "AlertConfig list"

text \<open>\<open>state.PriceRecord\<close>\<close>

record PriceRecord =
  Price :: real
  Timestamp :: time

text \<open>\<open>state.State\<close>: three maps and the path of the document.\<close>

record State =
  Prices :: "string \<rightharpoonup> PriceRecord"
  TriggeredAlerts :: "string \<rightharpoonup> bool"
  PriceHistory :: "string \<rightharpoonup> PriceRecord list"
  path :: string

text \<open>\<open>yahoo.Quote\<close>\<close>

record Quote =
  qTicker :: string
  qPrice :: real
  PreviousClose :: real
  qTimestamp :: time

text \<open>\<open>alerts.TriggeredAlert\<close>\<close>

record TriggeredAlert =
  tTicker :: string
  tName :: string
  Condition :: ConditionConfig
  tPrice :: real
  tMessage :: string

text \<open>The payload \<open>ntfy.notification\<close> posted to the server.\<close>

record notification =
  nTopic :: string
  nMessage :: string
  nTitle :: string
  nPriority :: int
  nTags :: "string list"

text \<open>The errors the functions below return; \<open>LibError\<close> is an error of a library call.\<close>

datatype error =
    InvalidType string
  | ValueNotPositive
  | PeriodRequired
  | ServerRequired
  | TopicRequired
  | PriorityRange
  | NoAlerts
  | TickerRequired nat
  | ConditionsRequired nat
  | InCondition nat nat error
  | LibError string
  | Fetching string error
  | AllTickersFailed error

section \<open>Formatting (\<open>fmt.Sprintf\<close>)\<close>

definition digit_char :: "nat \<Rightarrow> char" where
  "digit_char d = ''0123456789'' ! d"

function show_nat :: "nat \<Rightarrow> string" where
  "show_nat n = (if n < 10 then [digit_char n] else show_nat (n div 10) @ [digit_char (n mod 10)])"
  by pat_completeness auto
termination
  by (relation "measure id") auto

declare show_nat.simps [simp del]

text \<open>Rounding to the nearest integer, ties to the even one, as Go's decimal conversion does.\<close>

definition round_half_even :: "real \<Rightarrow> int" where
  "round_half_even y =
     (let f = \<lfloor>y\<rfloor>; d = y - of_int f
      in if d < 1 / 2 then f
         else if 1 / 2 < d then f + 1
         else if even f then f else f + 1)"

text \<open>The verb \<open>%.Nf\<close> for \<open>N = prec\<close>: sign, integer digits, and \<open>prec\<close> fraction digits.\<close>

definition fmt_fixed :: "nat \<Rightarrow> real \<Rightarrow> string" where
  "fmt_fixed prec x =
     (let n = nat (round_half_even (\<bar>x\<bar> * 10 ^ prec));
          ip = n div 10 ^ prec;
          fp = show_nat (n mod 10 ^ prec)
      in (if x < 0 then ''-'' else '''') @ show_nat ip @
         (if prec = 0 then '''' else ''.'' @ replicate (prec - length fp) CHR ''0'' @ fp))"

section \<open>State store (package \<open>state\<close>)\<close>

text \<open>\<open>AlertKey\<close>: \<open>fmt.Sprintf("%s:%s:%.2f", ticker, alertType, value)\<close>\<close>

definition AlertKey :: "string \<Rightarrow> string \<Rightarrow> real \<Rightarrow> string" where
  "AlertKey ticker alertType v = ticker @ '':'' @ alertType @ '':'' @ fmt_fixed 2 v"

definition IsAlertTriggered :: "State \<Rightarrow> string \<Rightarrow> bool" where
  "IsAlertTriggered s key = (case TriggeredAlerts s key of None \<Rightarrow> False | Some b \<Rightarrow> b)"

definition SetAlertTriggered :: "State \<Rightarrow> string \<Rightarrow> bool \<Rightarrow> State" where
  "SetAlertTriggered s key triggered = s\<lparr>TriggeredAlerts := (TriggeredAlerts s)(key \<mapsto> triggered)\<rparr>"

definition GetLastPrice :: "State \<Rightarrow> string \<Rightarrow> real \<times> bool" where
  "GetLastPrice s ticker =
     (case Prices s ticker of None \<Rightarrow> (0, False) | Some record \<Rightarrow> (Price record, True))"

text \<open>
  The loop of \<open>GetPriceAtTime\<close>: \<open>closest\<close> is the pointer of the source, \<open>None\<close> for nil.
  A record replaces it only when its timestamp is strictly after the one held.
\<close>

fun closest_loop :: "time \<Rightarrow> PriceRecord option \<Rightarrow> PriceRecord list \<Rightarrow> PriceRecord option" where
  "closest_loop targetTime closest [] = closest"
| "closest_loop targetTime closest (record # rest) =
     closest_loop targetTime
       (if Timestamp record < targetTime \<or> Timestamp record = targetTime then
          (case closest of
             None \<Rightarrow> Some record
           | Some c \<Rightarrow> if Timestamp c < Timestamp record then Some record else closest)
        else closest)
       rest"

definition GetPriceAtTime :: "State \<Rightarrow> string \<Rightarrow> duration \<Rightarrow> time \<Rightarrow> real \<times> bool" where
  "GetPriceAtTime s ticker ago now =
     (case PriceHistory s ticker of
        None \<Rightarrow> (0, False)
      | Some [] \<Rightarrow> (0, False)
      | Some (h0 # hs) \<Rightarrow>
          (let targetTime = now - ago
           in case closest_loop targetTime None (h0 # hs) of
                None \<Rightarrow> (Price h0, True)
              | Some c \<Rightarrow> (Price c, True)))"

text \<open>\<open>pruneHistory\<close> keeps the records whose timestamp is after the cutoff.\<close>

definition pruneHistory :: "State \<Rightarrow> string \<Rightarrow> duration \<Rightarrow> time \<Rightarrow> State" where
  "pruneHistory s ticker maxAge now =
     (case PriceHistory s ticker of
        None \<Rightarrow> s
      | Some history \<Rightarrow>
          (let cutoff = now - maxAge
           in s\<lparr>PriceHistory := (PriceHistory s)(ticker \<mapsto> filter (\<lambda>record. cutoff < Timestamp record) history)\<rparr>))"

definition Hour :: duration where
  "Hour = 3600000000000"

text \<open>
  \<open>UpdatePrice\<close>; \<open>now\<close> is the reading of the clock, taken for the new record and for the
  cutoff. A missing history is the nil slice, to which \<open>append\<close> adds.
\<close>

definition UpdatePrice :: "State \<Rightarrow> string \<Rightarrow> real \<Rightarrow> time \<Rightarrow> State" where
  "UpdatePrice s ticker price now =
     (let record = \<lparr>Price = price, Timestamp = now\<rparr>;
          s1 = s\<lparr>Prices := (Prices s)(ticker \<mapsto> record)\<rparr>;
          old = (case PriceHistory s1 ticker of None \<Rightarrow> [] | Some h \<Rightarrow> h);
          s2 = s1\<lparr>PriceHistory := (PriceHistory s1)(ticker \<mapsto> old @ [record])\<rparr>
      in pruneHistory s2 ticker (7 * 24 * Hour) now)"

section \<open>Configuration (package \<open>config\<close>)\<close>

definition validateCondition :: "ConditionConfig \<Rightarrow> error option" where
  "validateCondition c =
     (if \<not> (Type c = ''above'' \<or> Type c = ''below'' \<or> Type c = ''percent_change'') then
        Some (InvalidType (Type c))
      else if Value c \<le> 0 then Some ValueNotPositive
      else if Type c = ''percent_change'' \<and> Period c = '''' then Some PeriodRequired
      else None)"

fun validateConditions :: "nat \<Rightarrow> nat \<Rightarrow> ConditionConfig list \<Rightarrow> error option" where
  "validateConditions i j [] = None"
| "validateConditions i j (cond # rest) =
     (case validateCondition cond of
        Some err \<Rightarrow> Some (InCondition i j err)
      | None \<Rightarrow> validateConditions i (Suc j) rest)"

fun validateAlerts :: "nat \<Rightarrow> AlertConfig list \<Rightarrow> error option" where
  "validateAlerts i [] = None"
| "validateAlerts i (alert # rest) =
     (if Ticker alert = '''' then Some (TickerRequired i)
      else if Conditions alert = [] then Some (ConditionsRequired i)
      else (case validateConditions i 0 (Conditions alert) of
              Some err \<Rightarrow> Some err
            | None \<Rightarrow> validateAlerts (Suc i) rest))"

definition Validate :: "Config \<Rightarrow> error option" where
  "Validate c =
     (if Server (Ntfy c) = '''' then Some ServerRequired
      else if Topic (Ntfy c) = '''' then Some TopicRequired
      else if Priority (Ntfy c) < 1 \<or> 5 < Priority (Ntfy c) then Some PriorityRange
      else if Alerts c = [] then Some NoAlerts
      else validateAlerts 0 (Alerts c))"

text \<open>
  \<open>strings.ToUpper\<close> on the bytes of an ASCII string: the letters \<open>a\<close> to \<open>z\<close> move
  to \<open>A\<close> to \<open>Z\<close>, every other byte stays. The source maps letters beyond ASCII
  by their Unicode case as well; here their bytes stay, so the model is that of the
  source on ASCII tickers only. In both, no byte of the result is a letter \<open>a\<close> to \<open>z\<close>.
\<close>

definition is_lower :: "char \<Rightarrow> bool" where
  "is_lower c = (97 \<le> (of_char c :: nat) \<and> (of_char c :: nat) \<le> 122)"

definition to_upper_char :: "char \<Rightarrow> char" where
  "to_upper_char c = (if is_lower c then char_of ((of_char c :: nat) - 32) else c)"

definition ToUpper :: "string \<Rightarrow> string" where
  "ToUpper s = map to_upper_char s"

text \<open>\<open>GetUniqueTickers\<close>: \<open>seen\<close> is the map of the source, a missing key reading false.\<close>

fun unique_loop :: "(string \<rightharpoonup> bool) \<Rightarrow> string list \<Rightarrow> AlertConfig list \<Rightarrow> string list" where
  "unique_loop seen tickers [] = tickers"
| "unique_loop seen tickers (alert # rest) =
     (let ticker = ToUpper (Ticker alert)
      in if \<not> (case seen ticker of None \<Rightarrow> False | Some b \<Rightarrow> b) then
           unique_loop (seen(ticker \<mapsto> True)) (tickers @ [ticker]) rest
         else unique_loop seen tickers rest)"

definition GetUniqueTickers :: "Config \<Rightarrow> string list" where
  "GetUniqueTickers c = unique_loop Map.empty [] (Alerts c)"

section \<open>Quote source (package \<open>yahoo\<close>)\<close>

text \<open>
  \<open>GetQuote\<close> is the network call, an argument here. The map of quotes is an association
  list with one entry for each key, so that its length is the \<open>len\<close> of the source.
\<close>

type_synonym quotes = "(string \<times> Quote) list"

fun quotes_loop ::
  "(string \<Rightarrow> error + Quote) \<Rightarrow> quotes \<Rightarrow> error option \<Rightarrow> string list \<Rightarrow> quotes \<times> error option" where
  "quotes_loop GetQuote quotes lastErr [] = (quotes, lastErr)"
| "quotes_loop GetQuote quotes lastErr (ticker # rest) =
     (case GetQuote ticker of
        Inl err \<Rightarrow> quotes_loop GetQuote quotes (Some (Fetching ticker err)) rest
      | Inr quote \<Rightarrow> quotes_loop GetQuote (AList.update ticker quote quotes) lastErr rest)"

definition GetQuotes :: "(string \<Rightarrow> error + Quote) \<Rightarrow> string list \<Rightarrow> error + quotes" where
  "GetQuotes GetQuote tickers =
     (case quotes_loop GetQuote [] None tickers of
        (quotes, lastErr) \<Rightarrow>
          (case lastErr of
             Some err \<Rightarrow> if length quotes = 0 then Inl (AllTickersFailed err) else Inr quotes
           | None \<Rightarrow> Inr quotes))"

section \<open>Condition evaluator (package \<open>alerts\<close>)\<close>

text \<open>
  \<open>parseDuration\<close> calls two library functions, taken as arguments: \<open>Sscanf_days\<close> is
  \<open>fmt.Sscanf(period, "%dd", &days)\<close> and \<open>ParseDuration\<close> is \<open>time.ParseDuration\<close>.
  The product of the day count is an \<open>int64\<close> and wraps.
\<close>

record Lib =
  Sscanf_days :: "string \<Rightarrow> error + int"
  ParseDuration :: "string \<Rightarrow> error + duration"

definition wrap64 :: "int \<Rightarrow> int" where
  "wrap64 x = (x + 2 ^ 63) mod 2 ^ 64 - 2 ^ 63"

definition parseDuration :: "Lib \<Rightarrow> string \<Rightarrow> error + duration" where
  "parseDuration lib period =
     (if 1 < length period \<and> last period = CHR ''d'' then
        (case Sscanf_days lib period of
           Inl err \<Rightarrow> Inl err
         | Inr days \<Rightarrow> Inr (wrap64 (days * 24 * Hour)))
      else ParseDuration lib period)"

definition formatMessage :: "AlertConfig \<Rightarrow> ConditionConfig \<Rightarrow> real \<Rightarrow> string \<Rightarrow> string" where
  "formatMessage alert cond price direction =
     (if Message cond \<noteq> '''' then Message cond
      else (let name = (if Name alert = '''' then Ticker alert else Name alert)
            in name @ '' is '' @ direction @ '' $'' @ fmt_fixed 2 (Value cond) @
               '' (currently $'' @ fmt_fixed 2 price @ '')''))"

definition formatPercentMessage ::
  "AlertConfig \<Rightarrow> ConditionConfig \<Rightarrow> real \<Rightarrow> real \<Rightarrow> string \<Rightarrow> string" where
  "formatPercentMessage alert cond price change direction =
     (if Message cond \<noteq> '''' then Message cond
      else (let name = (if Name alert = '''' then Ticker alert else Name alert)
            in name @ '' moved '' @ fmt_fixed 1 \<bar>change\<bar> @ ''% '' @ direction @ '' in '' @
               Period cond @ '' (currently $'' @ fmt_fixed 2 price @ '')''))"

text \<open>
  Each evaluation returns the alert to send, if any, and the state after it: the
  evaluator of the source mutates the state it points to.
\<close>

definition evaluateAbove ::
  "State \<Rightarrow> AlertConfig \<Rightarrow> ConditionConfig \<Rightarrow> Quote \<Rightarrow> TriggeredAlert option \<times> State" where
  "evaluateAbove s alert cond quote =
     (let key = AlertKey (Ticker alert) ''above'' (Value cond);
          (lastPrice, hasLast) = GetLastPrice s (Ticker alert);
          isAbove = (Value cond \<le> qPrice quote);
          alreadyTriggered = IsAlertTriggered s key
      in if isAbove then
           (if \<not> alreadyTriggered then
              (Some \<lparr>tTicker = Ticker alert, tName = Name alert, Condition = cond,
                     tPrice = qPrice quote,
                     tMessage = formatMessage alert cond (qPrice quote) ''above''\<rparr>,
               SetAlertTriggered s key True)
            else (None, s))
         else
           (if alreadyTriggered \<and> hasLast \<and> Value cond \<le> lastPrice then
              (None, SetAlertTriggered s key False)
            else (None, s)))"

definition evaluateBelow ::
  "State \<Rightarrow> AlertConfig \<Rightarrow> ConditionConfig \<Rightarrow> Quote \<Rightarrow> TriggeredAlert option \<times> State" where
  "evaluateBelow s alert cond quote =
     (let key = AlertKey (Ticker alert) ''below'' (Value cond);
          (lastPrice, hasLast) = GetLastPrice s (Ticker alert);
          isBelow = (qPrice quote \<le> Value cond);
          alreadyTriggered = IsAlertTriggered s key
      in if isBelow then
           (if \<not> alreadyTriggered then
              (Some \<lparr>tTicker = Ticker alert, tName = Name alert, Condition = cond,
                     tPrice = qPrice quote,
                     tMessage = formatMessage alert cond (qPrice quote) ''below''\<rparr>,
               SetAlertTriggered s key True)
            else (None, s))
         else
           (if alreadyTriggered \<and> hasLast \<and> lastPrice \<le> Value cond then
              (None, SetAlertTriggered s key False)
            else (None, s)))"

text \<open>
  \<open>evaluatePercentChange\<close>; \<open>now\<close> is the clock read by \<open>GetPriceAtTime\<close>. The change is
  computed in the reals. The source computes it in \<open>float64\<close>: there each operation
  rounds, and a history price of zero gives an infinity or a NaN where the quotient of
  the reals is 0. On such inputs the decision and the digits of the message can differ
  from the source; the properties below rest on the part before the change is computed,
  or hold for any way of computing it.
\<close>

definition evaluatePercentChange ::
  "Lib \<Rightarrow> time \<Rightarrow> State \<Rightarrow> AlertConfig \<Rightarrow> ConditionConfig \<Rightarrow> Quote \<Rightarrow> TriggeredAlert option \<times> State" where
  "evaluatePercentChange lib now s alert cond quote =
     (case parseDuration lib (Period cond) of
        Inl err \<Rightarrow> (None, s)
      | Inr duration \<Rightarrow>
          (case GetPriceAtTime s (Ticker alert) duration now of
             (histPrice, ok) \<Rightarrow>
               if \<not> ok then (None, s)
               else
                 (let percentChange = ((qPrice quote - histPrice) / histPrice) * 100;
                      absChange = \<bar>percentChange\<bar>;
                      key = AlertKey (Ticker alert) ''percent_change'' (Value cond);
                      alreadyTriggered = IsAlertTriggered s key
                  in if Value cond \<le> absChange then
                       (if \<not> alreadyTriggered then
                          (let direction = (if percentChange < 0 then ''down'' else ''up'')
                           in (Some \<lparr>tTicker = Ticker alert, tName = Name alert, Condition = cond,
                                     tPrice = qPrice quote,
                                     tMessage = formatPercentMessage alert cond (qPrice quote)
                                                  percentChange direction\<rparr>,
                               SetAlertTriggered s key True))
                        else (None, s))
                     else
                       (if alreadyTriggered then (None, SetAlertTriggered s key False)
                        else (None, s)))))"

definition evaluateCondition ::
  "Lib \<Rightarrow> time \<Rightarrow> State \<Rightarrow> AlertConfig \<Rightarrow> ConditionConfig \<Rightarrow> Quote \<Rightarrow> TriggeredAlert option \<times> State" where
  "evaluateCondition lib now s alert cond quote =
     (if Type cond = ''above'' then evaluateAbove s alert cond quote
      else if Type cond = ''below'' then evaluateBelow s alert cond quote
      else if Type cond = ''percent_change'' then evaluatePercentChange lib now s alert cond quote
      else (None, s))"

text \<open>The inner loop of \<open>Evaluate\<close>, over the conditions of one alert.\<close>

fun evaluateConditions ::
  "Lib \<Rightarrow> time \<Rightarrow> State \<Rightarrow> TriggeredAlert list \<Rightarrow> AlertConfig \<Rightarrow> Quote \<Rightarrow> ConditionConfig list
     \<Rightarrow> TriggeredAlert list \<times> State" where
  "evaluateConditions lib now s triggered alert quote [] = (triggered, s)"
| "evaluateConditions lib now s triggered alert quote (cond # rest) =
     (case evaluateCondition lib now s alert cond quote of
        (Some t, s') \<Rightarrow> evaluateConditions lib now s' (triggered @ [t]) alert quote rest
      | (None, s') \<Rightarrow> evaluateConditions lib now s' triggered alert quote rest)"

text \<open>The outer loop: an alert whose ticker has no quote is passed over.\<close>

fun evaluateAlerts ::
  "Lib \<Rightarrow> time \<Rightarrow> State \<Rightarrow> TriggeredAlert list \<Rightarrow> quotes \<Rightarrow> AlertConfig list
     \<Rightarrow> TriggeredAlert list \<times> State" where
  "evaluateAlerts lib now s triggered quotes [] = (triggered, s)"
| "evaluateAlerts lib now s triggered quotes (alert # rest) =
     (case map_of quotes (Ticker alert) of
        None \<Rightarrow> evaluateAlerts lib now s triggered quotes rest
      | Some quote \<Rightarrow>
          (case evaluateConditions lib now s triggered alert quote (Conditions alert) of
             (triggered', s') \<Rightarrow> evaluateAlerts lib now s' triggered' quotes rest))"

definition Evaluate ::
  "Lib \<Rightarrow> time \<Rightarrow> State \<Rightarrow> AlertConfig list \<Rightarrow> quotes \<Rightarrow> TriggeredAlert list \<times> State" where
  "Evaluate lib now s alerts quotes = evaluateAlerts lib now s [] quotes alerts"

section \<open>Notification sink (package \<open>ntfy\<close>)\<close>

text \<open>
  \<open>SendAlert\<close> builds the payload that \<open>Send\<close> posts; the title starts with the four
  bytes of the money-bag sign. The answer of the server is only logged.
\<close>

definition SendAlert :: "NtfyConfig \<Rightarrow> string \<Rightarrow> string \<Rightarrow> string \<Rightarrow> real \<Rightarrow> notification" where
  "SendAlert cfg ticker name message price =
     (let title = [CHR 0xF0, CHR 0x9F, CHR 0x92, CHR 0xB0] @ '' '' @
                  (if name = '''' then ticker else name) @ '' Alert'';
          fullMessage = message @ [CHR 0x0A, CHR 0x0A] @ ''Current price: $'' @ fmt_fixed 2 price
      in \<lparr>nTopic = Topic cfg, nMessage = fullMessage, nTitle = title,
          nPriority = Priority cfg, nTags = [''chart_with_upwards_trend'', ticker]\<rparr>)"

section \<open>One run (\<open>main\<close>)\<close>

text \<open>
  A run from the loaded configuration and state on: it fetches the quotes, evaluates,
  sends unless \<open>dryRun\<close> is set, records the fetched prices and saves. The result is the
  error that ends the run, or the alerts triggered, the payloads sent and the state
  saved. \<open>now_eval\<close> and \<open>now_update\<close> are the clock during evaluation and during the
  update of the prices; the entries of the quotes are visited in the order of the list.
  The lines logged and printed are left out, and the write of the file is taken to succeed.
\<close>

record RunResult =
  triggered :: "TriggeredAlert list"
  sent :: "notification list"
  saved :: State

fun updatePrices :: "State \<Rightarrow> time \<Rightarrow> quotes \<Rightarrow> State" where
  "updatePrices st now [] = st"
| "updatePrices st now ((ticker, quote) # rest) =
     updatePrices (UpdatePrice st ticker (qPrice quote) now) now rest"

definition run ::
  "bool \<Rightarrow> Lib \<Rightarrow> (string \<Rightarrow> error + Quote) \<Rightarrow> time \<Rightarrow> time \<Rightarrow> Config \<Rightarrow> State \<Rightarrow> error + RunResult" where
  "run dryRun lib GetQuote now_eval now_update cfg st =
     (let tickers = GetUniqueTickers cfg
      in case GetQuotes GetQuote tickers of
           Inl err \<Rightarrow> Inl err
         | Inr quotes \<Rightarrow>
             (case Evaluate lib now_eval st (Alerts cfg) quotes of
                (trig, st1) \<Rightarrow>
                  (let notifications =
                         (if 0 < length trig \<and> \<not> dryRun then
                            map (\<lambda>alert. SendAlert (Ntfy cfg) (tTicker alert) (tName alert)
                                           (tMessage alert) (tPrice alert)) trig
                          else []);
                       st2 = updatePrices st1 now_update quotes
                   in Inr \<lparr>triggered = trig, sent = notifications, saved = st2\<rparr>)))"

text \<open>
  Successive runs on one \<open>above\<close> condition: each run evaluates the condition against its
  quote and then records the quoted price at its time, as \<open>main\<close> does. The result is the
  alerts that fired, in order, and the state after the last run.
\<close>

fun evaluateAbove_runs ::
  "State \<Rightarrow> AlertConfig \<Rightarrow> ConditionConfig \<Rightarrow> (Quote \<times> time) list \<Rightarrow> TriggeredAlert list \<times> State" where
  "evaluateAbove_runs s alert cond [] = ([], s)"
| "evaluateAbove_runs s alert cond ((quote, now) # rest) =
     (case evaluateAbove s alert cond quote of
        (t, s1) \<Rightarrow>
          (case evaluateAbove_runs (UpdatePrice s1 (Ticker alert) (qPrice quote) now) alert cond rest of
             (ts, s2) \<Rightarrow> ((case t of None \<Rightarrow> [] | Some a \<Rightarrow> [a]) @ ts, s2)))"

text \<open>The \<open>float64\<close> values nearest to 100.001 and to 100.004.\<close>

definition f64_100_001 :: real where
  "f64_100_001 = 3518472393255289 / 35184372088832"

definition f64_100_004 :: real where
  "f64_100_004 = 7037155892743111 / 70368744177664"

text \<open>
  The scenario of the specification: \<open>BTC-USD\<close> with \<open>Above(100000)\<close>, an empty state, a
  quote of 105000 for every ticker asked for, and library parsers that refuse every period.
  \<open>btc_fired\<close> and \<open>btc_saved\<close> are the alert and the saved state expected of a run that
  evaluates at time 10 and records at time 20.
\<close>

definition no_lib :: Lib where
  "no_lib = \<lparr>Sscanf_days = (\<lambda>p. Inl (LibError ''scan'')), ParseDuration = (\<lambda>p. Inl (LibError ''duration''))\<rparr>"

definition btc_cond :: ConditionConfig where
  "btc_cond = \<lparr>Type = ''above'', Value = 100000, Period = '''', Message = ''''\<rparr>"

definition btc_alert :: AlertConfig where
  "btc_alert = \<lparr>Ticker = ''BTC-USD'', Name = ''Bitcoin'', Conditions = [btc_cond]\<rparr>"

definition btc_cfg :: Config where
  "btc_cfg = \<lparr>Ntfy = \<lparr>Server = ''https://ntfy.example'', Topic = ''asset-alerts'', Username = '''',
                       Password = '''', Token = '''', Priority = 3\<rparr>,
              CheckInterval = '''', Alerts = [btc_alert]\<rparr>"

definition btc_quote :: "string \<Rightarrow> Quote" where
  "btc_quote t = \<lparr>qTicker = t, qPrice = 105000, PreviousClose = 0, qTimestamp = 0\<rparr>"

definition empty_state :: State where
  "empty_state = \<lparr>Prices = Map.empty, TriggeredAlerts = Map.empty, PriceHistory = Map.empty,
                  path = ''state.json''\<rparr>"

definition btc_fired :: TriggeredAlert where
  "btc_fired = \<lparr>tTicker = ''BTC-USD'', tName = ''Bitcoin'', Condition = btc_cond, tPrice = 105000,
                tMessage = ''Bitcoin is above $100000.00 (currently $105000.00)''\<rparr>"

definition btc_saved :: State where
  "btc_saved = \<lparr>Prices = [''BTC-USD'' \<mapsto> \<lparr>Price = 105000, Timestamp = 20\<rparr>],
                TriggeredAlerts = [''BTC-USD:above:100000.00'' \<mapsto> True],
                PriceHistory = [''BTC-USD'' \<mapsto> [\<lparr>Price = 105000, Timestamp = 20\<rparr>]],
                path = ''state.json''\<rparr>"

section \<open>Evaluation of the formatting on numerals\<close>

lemma show_nat_lt: "n < 10 \<Longrightarrow> show_nat n = [digit_char n]"
  by (simp add: show_nat.simps)

lemma show_nat_ge: "\<not> n < 10 \<Longrightarrow> show_nat n = show_nat (n div 10) @ [digit_char (n mod 10)]"
  by (subst show_nat.simps) simp

lemmas fmt_eval =
  AlertKey_def fmt_fixed_def round_half_even_def show_nat_lt show_nat_ge digit_char_def Let_def

section \<open>Trigger flags\<close>

lemma IsAlertTriggered_Set [simp]:
  "IsAlertTriggered (SetAlertTriggered s key b) key' =
     (if key' = key then b else IsAlertTriggered s key')"
  by (simp add: IsAlertTriggered_def SetAlertTriggered_def)

lemma TriggeredAlerts_pruneHistory [simp]:
  "TriggeredAlerts (pruneHistory s ticker maxAge now) = TriggeredAlerts s"
  by (simp add: pruneHistory_def split: option.splits)

lemma TriggeredAlerts_UpdatePrice [simp]:
  "TriggeredAlerts (UpdatePrice s ticker price now) = TriggeredAlerts s"
  by (simp add: UpdatePrice_def Let_def)

lemma IsAlertTriggered_UpdatePrice [simp]:
  "IsAlertTriggered (UpdatePrice s ticker price now) key = IsAlertTriggered s key"
  by (simp add: IsAlertTriggered_def)

section \<open>Above conditions\<close>

text \<open>
  C2. An \<open>above\<close> condition whose flag is set, evaluated at a price strictly below the
  threshold, fires nothing; the flag is cleared exactly when the ticker has a last
  recorded price and that price is at least the threshold. Otherwise (no last price, or
  one below the threshold) the state is left as it was, so the flag stays set.
\<close>

theorem above_reset_iff:
  assumes "IsAlertTriggered s (AlertKey (Ticker alert) ''above'' (Value cond))"
    and "qPrice quote < Value cond"
  shows "fst (evaluateAbove s alert cond quote) = None \<and>
         (\<not> IsAlertTriggered (snd (evaluateAbove s alert cond quote))
               (AlertKey (Ticker alert) ''above'' (Value cond)))
           = (\<exists>r. Prices s (Ticker alert) = Some r \<and> Value cond \<le> Price r) \<and>
         ((\<nexists>r. Prices s (Ticker alert) = Some r \<and> Value cond \<le> Price r)
            \<longrightarrow> snd (evaluateAbove s alert cond quote) = s)"
  using assms
  by (auto simp add: evaluateAbove_def GetLastPrice_def Let_def split: prod.splits option.splits)

text \<open>
  The scenario of the specification: \<open>Above(100)\<close> triggered, last recorded price 101, quote
  99: the flag is cleared.
\<close>

theorem above_reset_iff_witness:
  "IsAlertTriggered
     \<lparr>Prices = [''X'' \<mapsto> \<lparr>Price = 101, Timestamp = 0\<rparr>],
      TriggeredAlerts = [''X:above:100.00'' \<mapsto> True],
      PriceHistory = Map.empty, path = ''state.json''\<rparr>
     (AlertKey ''X'' ''above'' 100) \<and>
   (99 :: real) < 100 \<and>
   \<not> IsAlertTriggered
       (snd (evaluateAbove
          \<lparr>Prices = [''X'' \<mapsto> \<lparr>Price = 101, Timestamp = 0\<rparr>],
           TriggeredAlerts = [''X:above:100.00'' \<mapsto> True],
           PriceHistory = Map.empty, path = ''state.json''\<rparr>
          \<lparr>Ticker = ''X'', Name = '''', Conditions = []\<rparr>
          \<lparr>Type = ''above'', Value = 100, Period = '''', Message = ''''\<rparr>
          \<lparr>qTicker = ''X'', qPrice = 99, PreviousClose = 0, qTimestamp = 0\<rparr>))
       (AlertKey ''X'' ''above'' 100)"
  using above_reset_iff [of
          "\<lparr>Prices = [''X'' \<mapsto> \<lparr>Price = 101, Timestamp = 0\<rparr>],
           TriggeredAlerts = [''X:above:100.00'' \<mapsto> True],
           PriceHistory = Map.empty, path = ''state.json''\<rparr>"
          "\<lparr>Ticker = ''X'', Name = '''', Conditions = []\<rparr>"
          "\<lparr>Type = ''above'', Value = 100, Period = '''', Message = ''''\<rparr>"
          "\<lparr>qTicker = ''X'', qPrice = 99, PreviousClose = 0, qTimestamp = 0\<rparr>"]
  by (simp add: fmt_eval IsAlertTriggered_def)

lemma evaluateAbove_held:
  "IsAlertTriggered s (AlertKey (Ticker alert) ''above'' (Value cond)) \<Longrightarrow>
   Value cond \<le> qPrice quote \<Longrightarrow> evaluateAbove s alert cond quote = (None, s)"
  by (simp add: evaluateAbove_def Let_def split: prod.splits)

lemma evaluateAbove_runs_held:
  "IsAlertTriggered s (AlertKey (Ticker alert) ''above'' (Value cond))
     \<Longrightarrow> \<forall>r \<in> set runs. Value cond \<le> qPrice (fst r)
     \<Longrightarrow> fst (evaluateAbove_runs s alert cond runs) = [] \<and>
         IsAlertTriggered (snd (evaluateAbove_runs s alert cond runs))
           (AlertKey (Ticker alert) ''above'' (Value cond))"
proof (induction runs arbitrary: s)
  case Nil
  then show ?case by simp
next
  case (Cons r runs)
  obtain quote now where r: "r = (quote, now)" by (cases r)
  let ?s' = "UpdatePrice s (Ticker alert) (qPrice quote) now"
  from Cons.prems r have held: "evaluateAbove s alert cond quote = (None, s)"
    by (simp add: evaluateAbove_held)
  have "IsAlertTriggered ?s' (AlertKey (Ticker alert) ''above'' (Value cond))"
    using Cons.prems(1) by simp
  with Cons.IH Cons.prems(2) have
    "fst (evaluateAbove_runs ?s' alert cond runs) = [] \<and>
     IsAlertTriggered (snd (evaluateAbove_runs ?s' alert cond runs))
       (AlertKey (Ticker alert) ''above'' (Value cond))"
    by simp
  with r held show ?case by (simp split: prod.splits)
qed

lemma evaluateAbove_fires:
  "fst (evaluateAbove s alert cond quote) \<noteq> None \<Longrightarrow>
     \<not> IsAlertTriggered s (AlertKey (Ticker alert) ''above'' (Value cond)) \<and>
     IsAlertTriggered (snd (evaluateAbove s alert cond quote))
       (AlertKey (Ticker alert) ''above'' (Value cond))"
  by (auto simp add: evaluateAbove_def Let_def split: prod.splits if_splits)

text \<open>
  C3. An evaluation of an \<open>above\<close> condition fires only from a cleared flag and sets it.
  From a state where the flag is set, any number of runs whose prices are all at least
  the threshold fire no alert and end with the flag still set. So a second fire needs
  the flag cleared in between.
\<close>

theorem above_hysteresis:
  "(fst (evaluateAbove s alert cond quote) \<noteq> None \<longrightarrow>
      \<not> IsAlertTriggered s (AlertKey (Ticker alert) ''above'' (Value cond)) \<and>
      IsAlertTriggered (snd (evaluateAbove s alert cond quote))
        (AlertKey (Ticker alert) ''above'' (Value cond))) \<and>
   (IsAlertTriggered s (AlertKey (Ticker alert) ''above'' (Value cond)) \<and>
    (\<forall>r \<in> set runs. Value cond \<le> qPrice (fst r)) \<longrightarrow>
      fst (evaluateAbove_runs s alert cond runs) = [] \<and>
      IsAlertTriggered (snd (evaluateAbove_runs s alert cond runs))
        (AlertKey (Ticker alert) ''above'' (Value cond)))"
  using evaluateAbove_fires [of s alert cond quote] evaluateAbove_runs_held [of s alert cond runs]
  by blast

text \<open>
  A first run at 105 fires \<open>Above(100)\<close> from the empty state and sets the flag; from a
  state with the flag set, runs at 105 and at 100 fire nothing and keep it.
\<close>

theorem above_hysteresis_witness:
  "fst (evaluateAbove
          \<lparr>Prices = Map.empty, TriggeredAlerts = Map.empty, PriceHistory = Map.empty,
           path = ''state.json''\<rparr>
          \<lparr>Ticker = ''X'', Name = '''', Conditions = []\<rparr>
          \<lparr>Type = ''above'', Value = 100, Period = '''', Message = ''''\<rparr>
          \<lparr>qTicker = ''X'', qPrice = 105, PreviousClose = 0, qTimestamp = 0\<rparr>) \<noteq> None \<and>
   IsAlertTriggered
     (snd (evaluateAbove
          \<lparr>Prices = Map.empty, TriggeredAlerts = Map.empty, PriceHistory = Map.empty,
           path = ''state.json''\<rparr>
          \<lparr>Ticker = ''X'', Name = '''', Conditions = []\<rparr>
          \<lparr>Type = ''above'', Value = 100, Period = '''', Message = ''''\<rparr>
          \<lparr>qTicker = ''X'', qPrice = 105, PreviousClose = 0, qTimestamp = 0\<rparr>))
     (AlertKey ''X'' ''above'' 100) \<and>
   IsAlertTriggered
     \<lparr>Prices = Map.empty, TriggeredAlerts = [''X:above:100.00'' \<mapsto> True],
      PriceHistory = Map.empty, path = ''state.json''\<rparr>
     (AlertKey ''X'' ''above'' 100) \<and>
   fst (evaluateAbove_runs
          \<lparr>Prices = Map.empty, TriggeredAlerts = [''X:above:100.00'' \<mapsto> True],
           PriceHistory = Map.empty, path = ''state.json''\<rparr>
          \<lparr>Ticker = ''X'', Name = '''', Conditions = []\<rparr>
          \<lparr>Type = ''above'', Value = 100, Period = '''', Message = ''''\<rparr>
          [(\<lparr>qTicker = ''X'', qPrice = 105, PreviousClose = 0, qTimestamp = 0\<rparr>, 1),
           (\<lparr>qTicker = ''X'', qPrice = 100, PreviousClose = 0, qTimestamp = 0\<rparr>, 2)]) = []"
  using above_hysteresis [of
          "\<lparr>Prices = Map.empty, TriggeredAlerts = Map.empty, PriceHistory = Map.empty,
           path = ''state.json''\<rparr>"
          "\<lparr>Ticker = ''X'', Name = '''', Conditions = []\<rparr>"
          "\<lparr>Type = ''above'', Value = 100, Period = '''', Message = ''''\<rparr>"
          "\<lparr>qTicker = ''X'', qPrice = 105, PreviousClose = 0, qTimestamp = 0\<rparr>" "[]"]
        above_hysteresis [of
          "\<lparr>Prices = Map.empty, TriggeredAlerts = [''X:above:100.00'' \<mapsto> True],
           PriceHistory = Map.empty, path = ''state.json''\<rparr>"
          "\<lparr>Ticker = ''X'', Name = '''', Conditions = []\<rparr>"
          "\<lparr>Type = ''above'', Value = 100, Period = '''', Message = ''''\<rparr>"
          "\<lparr>qTicker = ''X'', qPrice = 105, PreviousClose = 0, qTimestamp = 0\<rparr>"
          "[(\<lparr>qTicker = ''X'', qPrice = 105, PreviousClose = 0, qTimestamp = 0\<rparr>, 1),
            (\<lparr>qTicker = ''X'', qPrice = 100, PreviousClose = 0, qTimestamp = 0\<rparr>, 2)]"]
  by (simp add: fmt_eval IsAlertTriggered_def evaluateAbove_def GetLastPrice_def SetAlertTriggered_def)

section \<open>Price history\<close>

lemma closest_loop_None:
  "(closest_loop t acc xs = None) = (acc = None \<and> (\<forall>e \<in> set xs. \<not> Timestamp e \<le> t))"
  by (induction xs arbitrary: acc) (auto split: option.splits)

lemma closest_loop_Some:
  "closest_loop t acc xs = Some c \<Longrightarrow> \<forall>a. acc = Some a \<longrightarrow> Timestamp a \<le> t \<Longrightarrow>
     (acc = Some c \<or> c \<in> set xs) \<and> Timestamp c \<le> t \<and>
     (\<forall>e \<in> set xs. Timestamp e \<le> t \<longrightarrow> Timestamp e \<le> Timestamp c) \<and>
     (\<forall>a. acc = Some a \<longrightarrow> Timestamp a \<le> Timestamp c)"
proof (induction xs arbitrary: acc)
  case Nil
  then show ?case by simp
next
  case (Cons x xs)
  let ?acc' = "(if Timestamp x < t \<or> Timestamp x = t then
          (case acc of
             None \<Rightarrow> Some x
           | Some c \<Rightarrow> if Timestamp c < Timestamp x then Some x else acc)
        else acc)"
  from Cons.prems(1) have loop: "closest_loop t ?acc' xs = Some c" by simp
  have ok: "\<forall>a. ?acc' = Some a \<longrightarrow> Timestamp a \<le> t"
    using Cons.prems(2) by (auto split: option.splits)
  from Cons.IH [OF loop ok] show ?case
    by (auto split: option.splits if_splits)
qed

lemma sorted_hd_min:
  "sorted (map Timestamp h) \<Longrightarrow> e \<in> set h \<Longrightarrow> Timestamp (hd h) \<le> Timestamp e"
  by (cases h) auto

text \<open>
  On a history in the order of its timestamps with every entry after the target, the
  first entry, whose price is returned, is the oldest one.
\<close>

lemma GetPriceAtTime_fallback_sorted:
  assumes "PriceHistory s ticker = Some h" and "h \<noteq> []"
    and "\<forall>e \<in> set h. \<not> Timestamp e \<le> now - ago"
    and "sorted (map Timestamp h)"
  shows "GetPriceAtTime s ticker ago now = (Price (hd h), True) \<and>
         (\<forall>e \<in> set h. Timestamp (hd h) \<le> Timestamp e)"
proof -
  from assms(2) obtain h0 hs where hh: "h = h0 # hs" by (cases h) auto
  have "closest_loop (now - ago) None h = None"
    using assms(3) by (simp add: closest_loop_None)
  with assms(1) hh have "GetPriceAtTime s ticker ago now = (Price (hd h), True)"
    by (simp add: GetPriceAtTime_def Let_def)
  with assms(4) show ?thesis
    using sorted_hd_min [of h] by blast
qed

text \<open>
  C4. \<open>GetPriceAtTime\<close> finds a price exactly when the ticker has a non-empty history.
  Then, with target time \<open>now - ago\<close>: if some entry is at or before the target, the
  price is that of an entry at or before the target that no such entry is later than;
  if every entry is after the target, the price is that of the first entry of the
  history, whatever the timestamps. On the history of 30 at time 9 followed by 10 at
  time 8, read at time 10 five units back, both entries are after the target and the
  price returned is 30, that of the first entry, where the oldest entry holds 10.
\<close>

theorem GetPriceAtTime_fallback_first:
  "(snd (GetPriceAtTime s ticker ago now) = (\<exists>h. PriceHistory s ticker = Some h \<and> h \<noteq> [])) \<and>
   (\<forall>h. PriceHistory s ticker = Some h \<and> h \<noteq> [] \<longrightarrow>
      (if \<exists>e \<in> set h. Timestamp e \<le> now - ago then
         \<exists>c \<in> set h. fst (GetPriceAtTime s ticker ago now) = Price c \<and> Timestamp c \<le> now - ago \<and>
           (\<forall>e \<in> set h. Timestamp e \<le> now - ago \<longrightarrow> Timestamp e \<le> Timestamp c)
       else fst (GetPriceAtTime s ticker ago now) = Price (hd h))) \<and>
   GetPriceAtTime
     \<lparr>Prices = Map.empty, TriggeredAlerts = Map.empty,
      PriceHistory = [''X'' \<mapsto> [\<lparr>Price = 30, Timestamp = 9\<rparr>, \<lparr>Price = 10, Timestamp = 8\<rparr>]],
      path = ''state.json''\<rparr> ''X'' 5 10 = (30, True) \<and>
   (\<exists>e \<in> set [\<lparr>Price = 30, Timestamp = 9\<rparr>, \<lparr>Price = 10, Timestamp = 8\<rparr>].
      (10 :: int) - 5 < Timestamp e \<and> Timestamp e < 9 \<and> Price e = 10)"
proof (intro conjI allI impI)
  show "snd (GetPriceAtTime s ticker ago now) = (\<exists>h. PriceHistory s ticker = Some h \<and> h \<noteq> [])"
    by (simp add: GetPriceAtTime_def Let_def split: option.splits list.splits)
next
  fix h
  assume h: "PriceHistory s ticker = Some h \<and> h \<noteq> []"
  then obtain h0 hs where hh: "h = h0 # hs" by (cases h) auto
  show "if \<exists>e \<in> set h. Timestamp e \<le> now - ago then
         \<exists>c \<in> set h. fst (GetPriceAtTime s ticker ago now) = Price c \<and> Timestamp c \<le> now - ago \<and>
           (\<forall>e \<in> set h. Timestamp e \<le> now - ago \<longrightarrow> Timestamp e \<le> Timestamp c)
       else fst (GetPriceAtTime s ticker ago now) = Price (hd h)"
  proof (cases "closest_loop (now - ago) None h")
    case None
    then have none: "\<forall>e \<in> set h. \<not> Timestamp e \<le> now - ago"
      by (simp add: closest_loop_None)
    have "fst (GetPriceAtTime s ticker ago now) = Price (hd h)"
      using h hh None by (simp add: GetPriceAtTime_def Let_def)
    with none show ?thesis by auto
  next
    case (Some c)
    from closest_loop_Some [OF Some] have c: "c \<in> set h" "Timestamp c \<le> now - ago"
      "\<forall>e \<in> set h. Timestamp e \<le> now - ago \<longrightarrow> Timestamp e \<le> Timestamp c"
      by auto
    have "fst (GetPriceAtTime s ticker ago now) = Price c"
      using h hh Some by (simp add: GetPriceAtTime_def Let_def)
    with c show ?thesis by auto
  qed
next
  show "GetPriceAtTime
     \<lparr>Prices = Map.empty, TriggeredAlerts = Map.empty,
      PriceHistory = [''X'' \<mapsto> [\<lparr>Price = 30, Timestamp = 9\<rparr>, \<lparr>Price = 10, Timestamp = 8\<rparr>]],
      path = ''state.json''\<rparr> ''X'' 5 10 = (30, True)"
    by (simp add: GetPriceAtTime_def)
  show "\<exists>e \<in> set [\<lparr>Price = 30, Timestamp = 9\<rparr>, \<lparr>Price = 10, Timestamp = 8\<rparr>].
      (10 :: int) - 5 < Timestamp e \<and> Timestamp e < 9 \<and> Price e = 10"
    by simp
qed

text \<open>
  A history of three entries at times 1, 5 and 9, read at time 10: three units back the
  entry of time 5 answers, a hundred units back the first entry does, and a ticker
  without history gives nothing. With the entries of times 9 and 8 in this order, five
  units back the first entry answers again.
\<close>

theorem GetPriceAtTime_fallback_first_witness:
  "PriceHistory
     \<lparr>Prices = Map.empty, TriggeredAlerts = Map.empty,
      PriceHistory = [''X'' \<mapsto> [\<lparr>Price = 10, Timestamp = 1\<rparr>, \<lparr>Price = 20, Timestamp = 5\<rparr>,
                               \<lparr>Price = 30, Timestamp = 9\<rparr>]],
      path = ''state.json''\<rparr> ''X''
     = Some [\<lparr>Price = 10, Timestamp = 1\<rparr>, \<lparr>Price = 20, Timestamp = 5\<rparr>, \<lparr>Price = 30, Timestamp = 9\<rparr>] \<and>
   GetPriceAtTime
     \<lparr>Prices = Map.empty, TriggeredAlerts = Map.empty,
      PriceHistory = [''X'' \<mapsto> [\<lparr>Price = 10, Timestamp = 1\<rparr>, \<lparr>Price = 20, Timestamp = 5\<rparr>,
                               \<lparr>Price = 30, Timestamp = 9\<rparr>]],
      path = ''state.json''\<rparr> ''X'' 3 10 = (20, True) \<and>
   GetPriceAtTime
     \<lparr>Prices = Map.empty, TriggeredAlerts = Map.empty,
      PriceHistory = [''X'' \<mapsto> [\<lparr>Price = 10, Timestamp = 1\<rparr>, \<lparr>Price = 20, Timestamp = 5\<rparr>,
                               \<lparr>Price = 30, Timestamp = 9\<rparr>]],
      path = ''state.json''\<rparr> ''X'' 100 10 = (10, True) \<and>
   \<not> snd (GetPriceAtTime
     \<lparr>Prices = Map.empty, TriggeredAlerts = Map.empty,
      PriceHistory = [''X'' \<mapsto> [\<lparr>Price = 10, Timestamp = 1\<rparr>, \<lparr>Price = 20, Timestamp = 5\<rparr>,
                               \<lparr>Price = 30, Timestamp = 9\<rparr>]],
      path = ''state.json''\<rparr> ''Y'' 3 10) \<and>
   fst (GetPriceAtTime
     \<lparr>Prices = Map.empty, TriggeredAlerts = Map.empty,
      PriceHistory = [''X'' \<mapsto> [\<lparr>Price = 30, Timestamp = 9\<rparr>, \<lparr>Price = 10, Timestamp = 8\<rparr>]],
      path = ''state.json''\<rparr> ''X'' 5 10)
     = Price (hd [\<lparr>Price = 30, Timestamp = 9\<rparr>, \<lparr>Price = 10, Timestamp = 8\<rparr>])"
  using GetPriceAtTime_fallback_first [of
          "\<lparr>Prices = Map.empty, TriggeredAlerts = Map.empty,
            PriceHistory = [''X'' \<mapsto> [\<lparr>Price = 10, Timestamp = 1\<rparr>, \<lparr>Price = 20, Timestamp = 5\<rparr>,
                               \<lparr>Price = 30, Timestamp = 9\<rparr>]],
            path = ''state.json''\<rparr>" "''X''" 3 10]
        GetPriceAtTime_fallback_first [of
          "\<lparr>Prices = Map.empty, TriggeredAlerts = Map.empty,
            PriceHistory = [''X'' \<mapsto> [\<lparr>Price = 10, Timestamp = 1\<rparr>, \<lparr>Price = 20, Timestamp = 5\<rparr>,
                               \<lparr>Price = 30, Timestamp = 9\<rparr>]],
            path = ''state.json''\<rparr>" "''X''" 100 10]
        GetPriceAtTime_fallback_first [of
          "\<lparr>Prices = Map.empty, TriggeredAlerts = Map.empty,
            PriceHistory = [''X'' \<mapsto> [\<lparr>Price = 10, Timestamp = 1\<rparr>, \<lparr>Price = 20, Timestamp = 5\<rparr>,
                               \<lparr>Price = 30, Timestamp = 9\<rparr>]],
            path = ''state.json''\<rparr>" "''Y''" 3 10]
        GetPriceAtTime_fallback_first [of
          "\<lparr>Prices = Map.empty, TriggeredAlerts = Map.empty,
            PriceHistory = [''X'' \<mapsto> [\<lparr>Price = 30, Timestamp = 9\<rparr>, \<lparr>Price = 10, Timestamp = 8\<rparr>]],
            path = ''state.json''\<rparr>" "''X''" 5 10]
  by (simp add: GetPriceAtTime_def)

section \<open>Composite keys\<close>

lemma round_half_even_near: "\<bar>real_of_int (round_half_even y) - y\<bar> \<le> 1 / 2"
  unfolding round_half_even_def Let_def
  by (auto simp: abs_le_iff)

lemma round_half_even_nonneg: "0 \<le> y \<Longrightarrow> 0 \<le> round_half_even y"
  unfolding round_half_even_def Let_def by auto

lemma show_nat_two_digits:
  assumes "m < 100"
  shows "replicate (2 - length (show_nat m)) CHR ''0'' @ show_nat m =
           [digit_char (m div 10), digit_char (m mod 10)]"
proof (cases "m < 10")
  case True
  then show ?thesis by (simp add: show_nat_lt digit_char_def)
next
  case False
  with assms have "m div 10 < 10" by simp
  with False show ?thesis by (simp add: show_nat_ge show_nat_lt)
qed

lemma fmt_fixed_2:
  "fmt_fixed 2 v =
     (if v < 0 then ''-'' else '''') @ show_nat (nat (round_half_even (\<bar>v\<bar> * 100)) div 100) @
     [CHR ''.'', digit_char (nat (round_half_even (\<bar>v\<bar> * 100)) mod 100 div 10),
      digit_char (nat (round_half_even (\<bar>v\<bar> * 100)) mod 10)]"
proof -
  let ?n = "nat (round_half_even (\<bar>v\<bar> * 100))"
  have "?n mod 100 < 100" by simp
  from show_nat_two_digits [OF this] have
    "replicate (2 - length (show_nat (?n mod 100))) CHR ''0'' @ show_nat (?n mod 100)
       = [digit_char (?n mod 100 div 10), digit_char (?n mod 100 mod 10)]" .
  moreover have "?n mod 100 mod 10 = ?n mod 10" by (simp add: mod_mod_cancel)
  ultimately show ?thesis by (simp add: fmt_fixed_def Let_def)
qed

lemma fmt_100_001: "fmt_fixed 2 f64_100_001 = ''100.00''"
  by (simp add: f64_100_001_def fmt_eval)

lemma fmt_100_004: "fmt_fixed 2 f64_100_004 = ''100.00''"
  by (simp add: f64_100_004_def fmt_eval)

text \<open>
  C5. The key is the ticker, a colon, the kind, a colon and the threshold with two
  fraction digits: the digits of the integer \<open>n\<close> nearest to a hundred times the
  threshold, a point before the last two. Two thresholds of one sign with the same
  \<open>n\<close> give one key; the floats 100.001 and 100.004 both give \<open>100.00\<close>, and a flag
  written under the key of one is read under the key of the other.
\<close>

theorem AlertKey_two_decimals:
  "(\<exists>n. \<bar>real n - \<bar>v\<bar> * 100\<bar> \<le> 1 / 2 \<and>
        AlertKey ticker kind v = ticker @ '':'' @ kind @ '':'' @ (if v < 0 then ''-'' else '''') @
          show_nat (n div 100) @ [CHR ''.'', digit_char (n mod 100 div 10), digit_char (n mod 10)]) \<and>
   (round_half_even (\<bar>v\<bar> * 100) = round_half_even (\<bar>w\<bar> * 100) \<and> (v < 0) = (w < 0)
      \<longrightarrow> AlertKey ticker kind v = AlertKey ticker kind w) \<and>
   AlertKey ticker kind f64_100_001 = ticker @ '':'' @ kind @ '':100.00'' \<and>
   AlertKey ticker kind f64_100_004 = ticker @ '':'' @ kind @ '':100.00'' \<and>
   IsAlertTriggered (SetAlertTriggered s (AlertKey ticker kind f64_100_001) b)
     (AlertKey ticker kind f64_100_004) = b"
proof (intro conjI impI)
  let ?n = "nat (round_half_even (\<bar>v\<bar> * 100))"
  have "0 \<le> round_half_even (\<bar>v\<bar> * 100)" by (rule round_half_even_nonneg) simp
  then have eq: "real ?n = real_of_int (round_half_even (\<bar>v\<bar> * 100))" by simp
  have "\<bar>real ?n - \<bar>v\<bar> * 100\<bar> \<le> 1 / 2"
    unfolding eq by (rule round_half_even_near)
  then show "\<exists>n. \<bar>real n - \<bar>v\<bar> * 100\<bar> \<le> 1 / 2 \<and>
        AlertKey ticker kind v = ticker @ '':'' @ kind @ '':'' @ (if v < 0 then ''-'' else '''') @
          show_nat (n div 100) @ [CHR ''.'', digit_char (n mod 100 div 10), digit_char (n mod 10)]"
    by (intro exI [of _ ?n]) (simp add: AlertKey_def fmt_fixed_2)
next
  assume "round_half_even (\<bar>v\<bar> * 100) = round_half_even (\<bar>w\<bar> * 100) \<and> (v < 0) = (w < 0)"
  then show "AlertKey ticker kind v = AlertKey ticker kind w"
    by (simp add: AlertKey_def fmt_fixed_2)
next
  show "AlertKey ticker kind f64_100_001 = ticker @ '':'' @ kind @ '':100.00''"
    by (simp add: AlertKey_def fmt_100_001)
  show "AlertKey ticker kind f64_100_004 = ticker @ '':'' @ kind @ '':100.00''"
    by (simp add: AlertKey_def fmt_100_004)
  show "IsAlertTriggered (SetAlertTriggered s (AlertKey ticker kind f64_100_001) b)
     (AlertKey ticker kind f64_100_004) = b"
    by (simp add: AlertKey_def fmt_100_001 fmt_100_004)
qed

text \<open>
  The two thresholds on \<open>BTC-USD\<close>: one key, \<open>BTC-USD:above:100.00\<close>, and the alert fired
  for the first threshold leaves the second one marked as triggered.
\<close>

theorem AlertKey_two_decimals_witness:
  "round_half_even (\<bar>f64_100_001\<bar> * 100) = round_half_even (\<bar>f64_100_004\<bar> * 100) \<and>
   (f64_100_001 < 0) = (f64_100_004 < 0) \<and>
   AlertKey ''BTC-USD'' ''above'' f64_100_001 = ''BTC-USD:above:100.00'' \<and>
   AlertKey ''BTC-USD'' ''above'' f64_100_001 = AlertKey ''BTC-USD'' ''above'' f64_100_004 \<and>
   IsAlertTriggered
     (snd (evaluateAbove
        \<lparr>Prices = Map.empty, TriggeredAlerts = Map.empty, PriceHistory = Map.empty,
         path = ''state.json''\<rparr>
        \<lparr>Ticker = ''BTC-USD'', Name = '''', Conditions = []\<rparr>
        \<lparr>Type = ''above'', Value = f64_100_001, Period = '''', Message = ''''\<rparr>
        \<lparr>qTicker = ''BTC-USD'', qPrice = 101, PreviousClose = 0, qTimestamp = 0\<rparr>))
     (AlertKey ''BTC-USD'' ''above'' f64_100_004)"
  using AlertKey_two_decimals [of f64_100_001 "''BTC-USD''" "''above''" f64_100_004
          "\<lparr>Prices = Map.empty, TriggeredAlerts = Map.empty, PriceHistory = Map.empty,
            path = ''state.json''\<rparr>" True]
  by (simp add: evaluateAbove_def GetLastPrice_def IsAlertTriggered_def SetAlertTriggered_def
        fmt_100_001 fmt_100_004 f64_100_001_def f64_100_004_def round_half_even_def)

section \<open>Recording a price\<close>

lemma PriceHistory_UpdatePrice:
  "PriceHistory (UpdatePrice s ticker price now) ticker =
     Some (filter (\<lambda>record. now - 7 * 24 * Hour < Timestamp record)
            ((case PriceHistory s ticker of None \<Rightarrow> [] | Some h \<Rightarrow> h) @ [\<lparr>Price = price, Timestamp = now\<rparr>]))"
  by (simp add: UpdatePrice_def pruneHistory_def Let_def)

lemma Prices_UpdatePrice:
  "Prices (UpdatePrice s ticker price now) = (Prices s)(ticker \<mapsto> \<lparr>Price = price, Timestamp = now\<rparr>)"
  by (simp add: UpdatePrice_def pruneHistory_def Let_def)

text \<open>
  A history in the order of its timestamps, none of them after \<open>now\<close>, is again such a
  history after \<open>UpdatePrice\<close>: its first entry is then its oldest.
\<close>

lemma UpdatePrice_keeps_order:
  assumes "PriceHistory s ticker = Some h" and "sorted (map Timestamp h)"
    and "\<forall>e \<in> set h. Timestamp e \<le> now"
  shows "\<exists>h'. PriceHistory (UpdatePrice s ticker price now) ticker = Some h' \<and>
              sorted (map Timestamp h') \<and> (\<forall>e \<in> set h'. Timestamp e \<le> now)"
proof -
  have "sorted (map Timestamp (filter (\<lambda>record. now - 7 * 24 * Hour < Timestamp record) h))"
    using assms(2) by (rule sorted_filter)
  with assms(1,3) show ?thesis
    by (auto simp add: PriceHistory_UpdatePrice sorted_append)
qed

text \<open>
  C6. \<open>UpdatePrice\<close> sets the last price to the new record, appends the record to the
  history and keeps, of the older entries, those whose timestamp is strictly after
  \<open>now\<close> minus seven days. An entry timestamped exactly at that cutoff is removed: with
  one such entry in the history, the history after the update holds the new record alone.
\<close>

theorem UpdatePrice_cutoff_entry:
  "Prices (UpdatePrice s ticker price now) ticker = Some \<lparr>Price = price, Timestamp = now\<rparr> \<and>
   PriceHistory (UpdatePrice s ticker price now) ticker =
     Some (filter (\<lambda>record. now - 7 * 24 * Hour < Timestamp record)
             (case PriceHistory s ticker of None \<Rightarrow> [] | Some h \<Rightarrow> h) @
           [\<lparr>Price = price, Timestamp = now\<rparr>]) \<and>
   PriceHistory
     (UpdatePrice
        \<lparr>Prices = Map.empty, TriggeredAlerts = Map.empty,
         PriceHistory = [''X'' \<mapsto> [\<lparr>Price = 1, Timestamp = 1000 - 7 * 24 * Hour\<rparr>]],
         path = ''state.json''\<rparr> ''X'' 2 1000) ''X''
     = Some [\<lparr>Price = 2, Timestamp = 1000\<rparr>]"
  by (simp add: PriceHistory_UpdatePrice Prices_UpdatePrice Hour_def)

section \<open>Change conditions\<close>

text \<open>
  C1. A condition of type \<open>absolute_change\<close>, whatever its value, period and message, is
  refused by \<open>validateCondition\<close> as an invalid type, and \<open>evaluateCondition\<close> has no case
  for it: it fires nothing and leaves the state as it was. So it is for the condition
  of the documentation, \<open>absolute_change\<close> of 10 over \<open>24h\<close>.
\<close>

theorem absolute_change_unsupported:
  "validateCondition (cond\<lparr>Type := ''absolute_change''\<rparr>) = Some (InvalidType ''absolute_change'') \<and>
   evaluateCondition lib now s alert (cond\<lparr>Type := ''absolute_change''\<rparr>) quote = (None, s) \<and>
   validateCondition \<lparr>Type = ''absolute_change'', Value = 10, Period = ''24h'', Message = ''''\<rparr>
     = Some (InvalidType ''absolute_change'') \<and>
   evaluateCondition lib now s alert
     \<lparr>Type = ''absolute_change'', Value = 10, Period = ''24h'', Message = ''''\<rparr> quote = (None, s)"
  by (simp add: validateCondition_def evaluateCondition_def)

text \<open>
  C7. A \<open>percent_change\<close> condition on a ticker without price history (no entry, or an
  empty one) fires nothing and leaves the state, the flag of the condition with it, as
  it was: for every threshold, period and state of the flag. The evaluation has no
  error to return.
\<close>

theorem percent_change_no_history:
  assumes "PriceHistory s (Ticker alert) = None \<or> PriceHistory s (Ticker alert) = Some []"
  shows "evaluatePercentChange lib now s alert cond quote = (None, s) \<and>
         (Type cond = ''percent_change'' \<longrightarrow> evaluateCondition lib now s alert cond quote = (None, s))"
  using assms
  by (auto simp add: evaluatePercentChange_def evaluateCondition_def GetPriceAtTime_def split: sum.splits)

text \<open>A flag that is set stays set: threshold 5, no history for the ticker.\<close>

theorem percent_change_no_history_witness:
  "PriceHistory
     \<lparr>Prices = Map.empty, TriggeredAlerts = [''X:percent_change:5.00'' \<mapsto> True],
      PriceHistory = Map.empty, path = ''state.json''\<rparr> ''X'' = None \<and>
   evaluateCondition \<lparr>Sscanf_days = (\<lambda>p. Inl (LibError ''scan'')), ParseDuration = (\<lambda>p. Inr (24 * Hour))\<rparr> 0
     \<lparr>Prices = Map.empty, TriggeredAlerts = [''X:percent_change:5.00'' \<mapsto> True],
      PriceHistory = Map.empty, path = ''state.json''\<rparr>
     \<lparr>Ticker = ''X'', Name = '''', Conditions = []\<rparr>
     \<lparr>Type = ''percent_change'', Value = 5, Period = ''24h'', Message = ''''\<rparr>
     \<lparr>qTicker = ''X'', qPrice = 105, PreviousClose = 0, qTimestamp = 0\<rparr>
   = (None, \<lparr>Prices = Map.empty, TriggeredAlerts = [''X:percent_change:5.00'' \<mapsto> True],
      PriceHistory = Map.empty, path = ''state.json''\<rparr>)"
  using percent_change_no_history [of
     "\<lparr>Prices = Map.empty, TriggeredAlerts = [''X:percent_change:5.00'' \<mapsto> True],
      PriceHistory = Map.empty, path = ''state.json''\<rparr>"
     "\<lparr>Ticker = ''X'', Name = '''', Conditions = []\<rparr>"
     "\<lparr>Sscanf_days = (\<lambda>p. Inl (LibError ''scan'')), ParseDuration = (\<lambda>p. Inr (24 * Hour))\<rparr>" 0
     "\<lparr>Type = ''percent_change'', Value = 5, Period = ''24h'', Message = ''''\<rparr>"
     "\<lparr>qTicker = ''X'', qPrice = 105, PreviousClose = 0, qTimestamp = 0\<rparr>"]
  by simp

section \<open>Tickers without a quote\<close>

lemma evaluateAlerts_append:
  "evaluateAlerts lib now s trig quotes (xs @ ys) =
     (case evaluateAlerts lib now s trig quotes xs of
        (trig', s') \<Rightarrow> evaluateAlerts lib now s' trig' quotes ys)"
  by (induction xs arbitrary: s trig) (auto split: option.splits prod.splits)

lemma Evaluate_skip:
  assumes "map_of quotes (Ticker alert) = None"
  shows "Evaluate lib now s (pre @ alert # post) quotes = Evaluate lib now s (pre @ post) quotes"
  using assms by (simp add: Evaluate_def evaluateAlerts_append split: prod.splits)

lemma update_not_Nil: "AList.update k v al \<noteq> []"
  by (cases al) auto

lemma quotes_loop_map_of:
  "map_of (fst (quotes_loop G qs le ts)) t =
     (if t \<in> set ts \<and> \<not> isl (G t) then Some (projr (G t)) else map_of qs t)"
proof (induction ts arbitrary: qs le)
  case Nil
  then show ?case by simp
next
  case (Cons a ts)
  show ?case
  proof (cases "G a")
    case (Inl err)
    with Cons.IH [of qs "Some (Fetching a err)"] show ?thesis by auto
  next
    case (Inr q)
    with Cons.IH [of "AList.update a q qs" le] show ?thesis
      by (auto simp add: update_conv')
  qed
qed

lemma quotes_loop_Nil:
  "(fst (quotes_loop G qs le ts) = []) = (qs = [] \<and> (\<forall>t \<in> set ts. isl (G t)))"
proof (induction ts arbitrary: qs le)
  case Nil
  then show ?case by simp
next
  case (Cons a ts)
  show ?case
  proof (cases "G a")
    case (Inl err)
    with Cons.IH [of qs "Some (Fetching a err)"] show ?thesis by simp
  next
    case (Inr q)
    with Cons.IH [of "AList.update a q qs" le] show ?thesis
      by (simp add: update_not_Nil)
  qed
qed

lemma quotes_loop_err:
  "(snd (quotes_loop G qs le ts) = None) = (le = None \<and> (\<forall>t \<in> set ts. \<not> isl (G t)))"
proof (induction ts arbitrary: qs le)
  case Nil
  then show ?case by simp
next
  case (Cons a ts)
  show ?case
  proof (cases "G a")
    case (Inl err)
    with Cons.IH [of qs "Some (Fetching a err)"] show ?thesis by simp
  next
    case (Inr q)
    with Cons.IH [of "AList.update a q qs" le] show ?thesis by simp
  qed
qed

lemma GetQuotes_fails_iff:
  "isl (GetQuotes G tickers) = (tickers \<noteq> [] \<and> (\<forall>t \<in> set tickers. isl (G t)))"
proof -
  obtain qs le where loop: "quotes_loop G [] None tickers = (qs, le)"
    by (cases "quotes_loop G [] None tickers")
  have qs: "(qs = []) = (\<forall>t \<in> set tickers. isl (G t))"
    using quotes_loop_Nil [of G "[]" None tickers] loop by simp
  have le: "(le = None) = (\<forall>t \<in> set tickers. \<not> isl (G t))"
    using quotes_loop_err [of G "[]" None tickers] loop by simp
  have "isl (GetQuotes G tickers) = (qs = [] \<and> le \<noteq> None)"
    using loop by (simp add: GetQuotes_def split: option.splits)
  also have "\<dots> = (tickers \<noteq> [] \<and> (\<forall>t \<in> set tickers. isl (G t)))"
    unfolding qs le by (cases tickers) auto
  finally show ?thesis .
qed

lemma GetQuotes_map_of:
  assumes "GetQuotes G tickers = Inr quotes"
  shows "map_of quotes t = (if t \<in> set tickers \<and> \<not> isl (G t) then Some (projr (G t)) else None)"
proof -
  obtain qs le where loop: "quotes_loop G [] None tickers = (qs, le)"
    by (cases "quotes_loop G [] None tickers")
  with assms have "quotes = qs"
    by (simp add: GetQuotes_def split: option.splits if_splits)
  with quotes_loop_map_of [of G "[]" None tickers t] loop show ?thesis by simp
qed

text \<open>
  C8. An alert whose ticker has no entry in the quotes is passed over: alone it gives no
  alert and the state unchanged, and among other alerts the evaluation is that of the
  list without it. \<open>GetQuotes\<close> returns an error exactly when at least one ticker was
  asked for and the fetch of every ticker failed.
\<close>

theorem absent_ticker_skipped:
  "(map_of quotes (Ticker alert) = None \<longrightarrow>
      Evaluate lib now s [alert] quotes = ([], s) \<and>
      Evaluate lib now s (pre @ alert # post) quotes = Evaluate lib now s (pre @ post) quotes) \<and>
   isl (GetQuotes GetQuote tickers) = (tickers \<noteq> [] \<and> (\<forall>t \<in> set tickers. isl (GetQuote t)))"
  using Evaluate_skip [of quotes alert lib now s pre post] GetQuotes_fails_iff [of GetQuote tickers]
  by (auto simp add: Evaluate_def)

text \<open>
  Two tickers, the fetch of \<open>B\<close> failing: no error, \<open>B\<close> is passed over and \<open>A\<close> fires. With
  both fetches failing \<open>GetQuotes\<close> returns its error.
\<close>

theorem absent_ticker_skipped_witness:
  "map_of [(''A'', \<lparr>qTicker = ''A'', qPrice = 105, PreviousClose = 0, qTimestamp = 0\<rparr>)] ''B'' = None \<and>
   Evaluate \<lparr>Sscanf_days = (\<lambda>p. Inl (LibError ''scan'')), ParseDuration = (\<lambda>p. Inr (24 * Hour))\<rparr> 0
     \<lparr>Prices = Map.empty, TriggeredAlerts = Map.empty, PriceHistory = Map.empty, path = ''state.json''\<rparr>
     [\<lparr>Ticker = ''B'', Name = '''',
        Conditions = [\<lparr>Type = ''above'', Value = 1, Period = '''', Message = ''''\<rparr>]\<rparr>]
     [(''A'', \<lparr>qTicker = ''A'', qPrice = 105, PreviousClose = 0, qTimestamp = 0\<rparr>)]
     = ([], \<lparr>Prices = Map.empty, TriggeredAlerts = Map.empty, PriceHistory = Map.empty,
              path = ''state.json''\<rparr>) \<and>
   map tMessage (fst (Evaluate
     \<lparr>Sscanf_days = (\<lambda>p. Inl (LibError ''scan'')), ParseDuration = (\<lambda>p. Inr (24 * Hour))\<rparr> 0
     \<lparr>Prices = Map.empty, TriggeredAlerts = Map.empty, PriceHistory = Map.empty, path = ''state.json''\<rparr>
     [\<lparr>Ticker = ''B'', Name = '''',
        Conditions = [\<lparr>Type = ''above'', Value = 1, Period = '''', Message = ''''\<rparr>]\<rparr>,
      \<lparr>Ticker = ''A'', Name = '''',
        Conditions = [\<lparr>Type = ''above'', Value = 100, Period = '''', Message = ''''\<rparr>]\<rparr>]
     [(''A'', \<lparr>qTicker = ''A'', qPrice = 105, PreviousClose = 0, qTimestamp = 0\<rparr>)]))
     = [''A is above $100.00 (currently $105.00)''] \<and>
   \<not> isl (GetQuotes
     (\<lambda>t. if t = ''A'' then Inr \<lparr>qTicker = ''A'', qPrice = 105, PreviousClose = 0, qTimestamp = 0\<rparr>
           else Inl (LibError ''status''))
     [''A'', ''B'']) \<and>
   isl (GetQuotes (\<lambda>t. Inl (LibError ''status'')) [''A'', ''B''])"
  using absent_ticker_skipped [of
     "[(''A'', \<lparr>qTicker = ''A'', qPrice = 105, PreviousClose = 0, qTimestamp = 0\<rparr>)]"
     "\<lparr>Ticker = ''B'', Name = '''',
        Conditions = [\<lparr>Type = ''above'', Value = 1, Period = '''', Message = ''''\<rparr>]\<rparr>"
     "\<lparr>Sscanf_days = (\<lambda>p. Inl (LibError ''scan'')), ParseDuration = (\<lambda>p. Inr (24 * Hour))\<rparr>" 0
     "\<lparr>Prices = Map.empty, TriggeredAlerts = Map.empty, PriceHistory = Map.empty, path = ''state.json''\<rparr>"
     "[]"
     "[\<lparr>Ticker = ''A'', Name = '''',
        Conditions = [\<lparr>Type = ''above'', Value = 100, Period = '''', Message = ''''\<rparr>]\<rparr>]"
     "(\<lambda>t. if t = ''A'' then Inr \<lparr>qTicker = ''A'', qPrice = 105, PreviousClose = 0, qTimestamp = 0\<rparr>
           else Inl (LibError ''status''))"
     "[''A'', ''B'']"]
    absent_ticker_skipped [of
     "[(''A'', \<lparr>qTicker = ''A'', qPrice = 105, PreviousClose = 0, qTimestamp = 0\<rparr>)]"
     "\<lparr>Ticker = ''B'', Name = '''',
        Conditions = [\<lparr>Type = ''above'', Value = 1, Period = '''', Message = ''''\<rparr>]\<rparr>"
     "\<lparr>Sscanf_days = (\<lambda>p. Inl (LibError ''scan'')), ParseDuration = (\<lambda>p. Inr (24 * Hour))\<rparr>" 0
     "\<lparr>Prices = Map.empty, TriggeredAlerts = Map.empty, PriceHistory = Map.empty, path = ''state.json''\<rparr>"
     "[]" "[]"
     "(\<lambda>t. Inl (LibError ''status''))"
     "[''A'', ''B'']"]
  by (simp add: Evaluate_def evaluateCondition_def evaluateAbove_def GetLastPrice_def
        IsAlertTriggered_def SetAlertTriggered_def formatMessage_def fmt_eval)

section \<open>Dry run\<close>

text \<open>
  C9. A run that ends in an error ends in the same error as a dry run. Otherwise the dry
  run returns too, with the same triggered alerts and the same saved state, and sends
  nothing, where the run sends one payload for each triggered alert.
\<close>

theorem dry_run_same_state:
  "(case run False lib GetQuote now_eval now_update cfg st of
      Inl err \<Rightarrow> run True lib GetQuote now_eval now_update cfg st = Inl err
    | Inr r \<Rightarrow>
        (\<exists>d. run True lib GetQuote now_eval now_update cfg st = Inr d \<and>
             triggered d = triggered r \<and> saved d = saved r \<and> sent d = [] \<and>
             sent r = map (\<lambda>a. SendAlert (Ntfy cfg) (tTicker a) (tName a) (tMessage a) (tPrice a))
                        (triggered r)))"
  by (auto simp add: run_def Let_def split: sum.splits prod.splits)

lemma btc_tickers: "GetUniqueTickers btc_cfg = [''BTC-USD'']"
  by (simp add: btc_cfg_def btc_alert_def GetUniqueTickers_def ToUpper_def to_upper_char_def is_lower_def)

lemma btc_quotes: "GetQuotes (\<lambda>t. Inr (btc_quote t)) [''BTC-USD''] = Inr [(''BTC-USD'', btc_quote ''BTC-USD'')]"
  by (simp add: GetQuotes_def)

lemma btc_key: "AlertKey ''BTC-USD'' ''above'' 100000 = ''BTC-USD:above:100000.00''"
  by (simp add: fmt_eval)

lemma btc_message:
  "formatMessage btc_alert btc_cond 105000 ''above'' = ''Bitcoin is above $100000.00 (currently $105000.00)''"
  by (simp add: formatMessage_def btc_alert_def btc_cond_def fmt_fixed_def round_half_even_def
        show_nat_lt show_nat_ge digit_char_def)

lemma btc_evaluate:
  "Evaluate no_lib 10 empty_state [btc_alert] [(''BTC-USD'', btc_quote ''BTC-USD'')] =
     ([btc_fired], empty_state\<lparr>TriggeredAlerts := [''BTC-USD:above:100000.00'' \<mapsto> True]\<rparr>)"
proof -
  have "evaluateAbove empty_state btc_alert btc_cond (btc_quote ''BTC-USD'') =
          (Some btc_fired, empty_state\<lparr>TriggeredAlerts := [''BTC-USD:above:100000.00'' \<mapsto> True]\<rparr>)"
    using btc_message
    by (simp add: evaluateAbove_def btc_key GetLastPrice_def IsAlertTriggered_def SetAlertTriggered_def
          btc_alert_def btc_cond_def btc_quote_def empty_state_def btc_fired_def)
  then have "evaluateCondition no_lib 10 empty_state btc_alert btc_cond (btc_quote ''BTC-USD'') =
          (Some btc_fired, empty_state\<lparr>TriggeredAlerts := [''BTC-USD:above:100000.00'' \<mapsto> True]\<rparr>)"
    by (simp add: evaluateCondition_def btc_cond_def)
  then show ?thesis
    by (simp add: Evaluate_def btc_alert_def)
qed

lemma btc_update:
  "UpdatePrice (empty_state\<lparr>TriggeredAlerts := [''BTC-USD:above:100000.00'' \<mapsto> True]\<rparr>)
     ''BTC-USD'' (qPrice (btc_quote ''BTC-USD'')) 20 = btc_saved"
  by (simp add: UpdatePrice_def pruneHistory_def Hour_def Let_def empty_state_def btc_quote_def
        btc_saved_def)

lemma btc_run:
  "run dryRun no_lib (\<lambda>t. Inr (btc_quote t)) 10 20 btc_cfg empty_state =
     Inr \<lparr>triggered = [btc_fired],
          sent = (if dryRun then []
                  else [SendAlert (Ntfy btc_cfg) ''BTC-USD'' ''Bitcoin''
                          ''Bitcoin is above $100000.00 (currently $105000.00)'' 105000]),
          saved = btc_saved\<rparr>"
proof -
  have alerts: "Alerts btc_cfg = [btc_alert]" by (simp add: btc_cfg_def)
  show ?thesis
    by (simp add: run_def btc_tickers btc_quotes alerts btc_evaluate btc_update btc_fired_def)
qed

text \<open>
  In the scenario both runs return, with the one alert and the saved state expected; the
  run sends one payload and the dry run none.
\<close>

theorem dry_run_same_state_witness:
  "\<exists>d r.
     run True no_lib (\<lambda>t. Inr (btc_quote t)) 10 20 btc_cfg empty_state = Inr d \<and>
     run False no_lib (\<lambda>t. Inr (btc_quote t)) 10 20 btc_cfg empty_state = Inr r \<and>
     triggered d = triggered r \<and> saved d = saved r \<and> sent d = [] \<and>
     triggered r = [btc_fired] \<and> length (sent r) = 1 \<and> saved r = btc_saved \<and>
     IsAlertTriggered (saved r) ''BTC-USD:above:100000.00''"
  using dry_run_same_state [of no_lib "\<lambda>t. Inr (btc_quote t)" 10 20 btc_cfg empty_state]
  by (simp add: btc_run) (simp add: btc_saved_def IsAlertTriggered_def)

section \<open>Tickers with lowercase letters\<close>

lemma not_lower_to_upper: "\<not> is_lower (to_upper_char c)"
  by (auto simp add: to_upper_char_def is_lower_def)

lemma ToUpper_no_lower: "c \<in> set (ToUpper u) \<Longrightarrow> \<not> is_lower c"
  by (auto simp add: ToUpper_def not_lower_to_upper)

lemma set_unique_loop:
  "\<forall>t. seen t = Some True \<longrightarrow> t \<in> set acc \<Longrightarrow>
   set (unique_loop seen acc alerts) = set acc \<union> (\<lambda>a. ToUpper (Ticker a)) ` set alerts"
proof (induction alerts arbitrary: seen acc)
  case Nil
  then show ?case by simp
next
  case (Cons a alerts)
  let ?t = "ToUpper (Ticker a)"
  show ?case
  proof (cases "case seen ?t of None \<Rightarrow> False | Some b \<Rightarrow> b")
    case True
    then have "seen ?t = Some True" by (auto split: option.splits)
    with Cons.prems have "?t \<in> set acc" by simp
    with True Cons.IH [OF Cons.prems] show ?thesis by (auto simp add: Let_def)
  next
    case False
    have "\<forall>t. (seen(?t \<mapsto> True)) t = Some True \<longrightarrow> t \<in> set (acc @ [?t])"
      using Cons.prems by auto
    with Cons.IH [of "seen(?t \<mapsto> True)" "acc @ [?t]"] have
      "set (unique_loop (seen(?t \<mapsto> True)) (acc @ [?t]) alerts) =
         set (acc @ [?t]) \<union> (\<lambda>a. ToUpper (Ticker a)) ` set alerts"
      by blast
    with False show ?thesis by (simp add: Let_def)
  qed
qed

lemma set_GetUniqueTickers:
  "set (GetUniqueTickers cfg) = (\<lambda>a. ToUpper (Ticker a)) ` set (Alerts cfg)"
  by (simp add: GetUniqueTickers_def set_unique_loop)

lemma ToUpper_btc_usd: "ToUpper ''btc-usd'' = ''BTC-USD''"
  by code_simp

text \<open>
  C10. The quotes are keyed by the uppercased tickers. An alert whose ticker, as
  configured, has a lowercase letter finds no quote: it is passed over, alone and among
  other alerts, in every state and at every time, although the quote fetched for its
  uppercased ticker is in the quotes.
\<close>

theorem lowercase_ticker_never_evaluated:
  assumes "GetQuotes GetQuote (GetUniqueTickers cfg) = Inr quotes"
    and "\<exists>c \<in> set (Ticker alert). is_lower c"
  shows "map_of quotes (Ticker alert) = None \<and>
         Evaluate lib now s [alert] quotes = ([], s) \<and>
         Evaluate lib now s (pre @ alert # post) quotes = Evaluate lib now s (pre @ post) quotes \<and>
         (alert \<in> set (Alerts cfg) \<longrightarrow>
            (\<forall>q. GetQuote (ToUpper (Ticker alert)) = Inr q \<longrightarrow>
               map_of quotes (ToUpper (Ticker alert)) = Some q))"
proof -
  have "Ticker alert \<notin> set (GetUniqueTickers cfg)"
  proof
    assume "Ticker alert \<in> set (GetUniqueTickers cfg)"
    then obtain a :: AlertConfig where "Ticker alert = ToUpper (Ticker a)"
      by (auto simp add: set_GetUniqueTickers)
    with assms(2) show False using ToUpper_no_lower [of _ "Ticker a"] by auto
  qed
  then have miss: "map_of quotes (Ticker alert) = None"
    by (simp add: GetQuotes_map_of [OF assms(1)])
  have hit: "map_of quotes (ToUpper (Ticker alert)) = Some q"
    if "alert \<in> set (Alerts cfg)" and "GetQuote (ToUpper (Ticker alert)) = Inr q" for q
    using that by (auto simp add: GetQuotes_map_of [OF assms(1)] set_GetUniqueTickers)
  from miss have "Evaluate lib now s [alert] quotes = ([], s)"
    by (simp add: Evaluate_def)
  with miss hit Evaluate_skip [OF miss] show ?thesis by blast
qed

text \<open>The ticker \<open>btc-usd\<close>: its quote is stored under \<open>BTC-USD\<close> and the alert never fires.\<close>

theorem lowercase_ticker_never_evaluated_witness:
  "GetQuotes (\<lambda>t. Inr \<lparr>qTicker = t, qPrice = 105000, PreviousClose = 0, qTimestamp = 0\<rparr>)
     (GetUniqueTickers
        \<lparr>Ntfy = \<lparr>Server = ''https://ntfy.example'', Topic = ''asset-alerts'', Username = '''',
                 Password = '''', Token = '''', Priority = 3\<rparr>,
         CheckInterval = '''',
         Alerts = [\<lparr>Ticker = ''btc-usd'', Name = ''Bitcoin'',
                   Conditions = [\<lparr>Type = ''above'', Value = 100000, Period = '''', Message = ''''\<rparr>]\<rparr>]\<rparr>)
     = Inr [(''BTC-USD'', \<lparr>qTicker = ''BTC-USD'', qPrice = 105000, PreviousClose = 0, qTimestamp = 0\<rparr>)] \<and>
   is_lower CHR ''b'' \<and>
   map_of [(''BTC-USD'', \<lparr>qTicker = ''BTC-USD'', qPrice = 105000, PreviousClose = 0, qTimestamp = 0\<rparr>)]
     ''btc-usd'' = None \<and>
   map_of [(''BTC-USD'', \<lparr>qTicker = ''BTC-USD'', qPrice = 105000, PreviousClose = 0, qTimestamp = 0\<rparr>)]
     (ToUpper ''btc-usd'')
     = Some \<lparr>qTicker = ''BTC-USD'', qPrice = 105000, PreviousClose = 0, qTimestamp = 0\<rparr> \<and>
   Evaluate \<lparr>Sscanf_days = (\<lambda>p. Inl (LibError ''scan'')), ParseDuration = (\<lambda>p. Inr (24 * Hour))\<rparr> 0
     \<lparr>Prices = Map.empty, TriggeredAlerts = Map.empty, PriceHistory = Map.empty, path = ''state.json''\<rparr>
     [\<lparr>Ticker = ''btc-usd'', Name = ''Bitcoin'',
        Conditions = [\<lparr>Type = ''above'', Value = 100000, Period = '''', Message = ''''\<rparr>]\<rparr>]
     [(''BTC-USD'', \<lparr>qTicker = ''BTC-USD'', qPrice = 105000, PreviousClose = 0, qTimestamp = 0\<rparr>)]
     = ([], \<lparr>Prices = Map.empty, TriggeredAlerts = Map.empty, PriceHistory = Map.empty,
              path = ''state.json''\<rparr>)"
  using lowercase_ticker_never_evaluated [of
     "(\<lambda>t. Inr \<lparr>qTicker = t, qPrice = 105000, PreviousClose = 0, qTimestamp = 0\<rparr>)"
     "\<lparr>Ntfy = \<lparr>Server = ''https://ntfy.example'', Topic = ''asset-alerts'', Username = '''',
                 Password = '''', Token = '''', Priority = 3\<rparr>,
         CheckInterval = '''',
         Alerts = [\<lparr>Ticker = ''btc-usd'', Name = ''Bitcoin'',
                   Conditions = [\<lparr>Type = ''above'', Value = 100000, Period = '''', Message = ''''\<rparr>]\<rparr>]\<rparr>"
     "[(''BTC-USD'', \<lparr>qTicker = ''BTC-USD'', qPrice = 105000, PreviousClose = 0, qTimestamp = 0\<rparr>)]"
     "\<lparr>Ticker = ''btc-usd'', Name = ''Bitcoin'',
        Conditions = [\<lparr>Type = ''above'', Value = 100000, Period = '''', Message = ''''\<rparr>]\<rparr>"
     "\<lparr>Sscanf_days = (\<lambda>p. Inl (LibError ''scan'')), ParseDuration = (\<lambda>p. Inr (24 * Hour))\<rparr>" 0
     "\<lparr>Prices = Map.empty, TriggeredAlerts = Map.empty, PriceHistory = Map.empty, path = ''state.json''\<rparr>"
     "[]" "[]"]
  by (simp add: GetUniqueTickers_def GetQuotes_def ToUpper_btc_usd is_lower_def)

end
